theory Spec2Isabelle
  imports Complex_Main
begin

section \<open>The analytic MEG forward solution of duneuro-analytic-solution\<close>

text \<open>
  The header \<^verbatim>\<open>duneuro-analytic-solution.hh\<close> defines the class template
  \<^verbatim>\<open>AnalyticSolutionMEG<FieldType>\<close>; the file \<^verbatim>\<open>duneuro-analytic-solution.cc\<close>
  exposes it, together with \<^verbatim>\<open>Dune::FieldVector<double, 3>\<close> and \<^verbatim>\<open>duneuro::Dipole\<close>,
  to Python. The class is generic in its scalar type. This development instantiates the
  scalar type twice, each time operator by operator:
  \<^item> with exact real arithmetic in which a quotient by zero has no value (the type
    \<open>FieldType\<close> below), to compare the code with the formulas of the specification;
  \<^item> with the binary64 arithmetic of IEEE 754 (the type \<open>double\<close> below), in which every
    operator rounds and a quotient by zero is an infinity or a NaN: this is the instance
    that the binding registers.
\<close>

subsection \<open>Scalars\<close>

text \<open>
  A scalar is an exact real number, or \<open>Undef\<close> when the arithmetic that produced it
  has no real value (a quotient by zero, or an operand that is already \<open>Undef\<close>).
\<close>

datatype FieldType = Exact real | Undef

instantiation FieldType :: "{plus, minus, times, inverse}"
begin

fun plus_FieldType :: "FieldType \<Rightarrow> FieldType \<Rightarrow> FieldType" where
  "plus_FieldType (Exact x) (Exact y) = Exact (x + y)"
| "plus_FieldType _ _ = Undef"

fun minus_FieldType :: "FieldType \<Rightarrow> FieldType \<Rightarrow> FieldType" where
  "minus_FieldType (Exact x) (Exact y) = Exact (x - y)"
| "minus_FieldType _ _ = Undef"

fun times_FieldType :: "FieldType \<Rightarrow> FieldType \<Rightarrow> FieldType" where
  "times_FieldType (Exact x) (Exact y) = Exact (x * y)"
| "times_FieldType _ _ = Undef"

fun divide_FieldType :: "FieldType \<Rightarrow> FieldType \<Rightarrow> FieldType" where
  "divide_FieldType (Exact x) (Exact y) = (if y = 0 then Undef else Exact (x / y))"
| "divide_FieldType _ _ = Undef"

fun inverse_FieldType :: "FieldType \<Rightarrow> FieldType" where
  "inverse_FieldType (Exact x) = (if x = 0 then Undef else Exact (inverse x))"
| "inverse_FieldType Undef = Undef"

instance ..

end

text \<open>The square root of \<^verbatim>\<open><cmath>\<close>, which has no real value on a negative argument.\<close>

fun fsqrt :: "FieldType \<Rightarrow> FieldType" where
  "fsqrt (Exact x) = (if x < 0 then Undef else Exact (sqrt x))"
| "fsqrt Undef = Undef"

subsection \<open>Coordinates: \<^verbatim>\<open>Dune::FieldVector<FieldType, 3>\<close>\<close>

definition dim :: nat where
  "dim = 3"

text \<open>
  Modelled from the spec: the vector type \<^verbatim>\<open>Dune::FieldVector\<close> comes from the
  library dune-common and is not part of the repository. Section 3 and 4.1 of the
  specification describe it: exactly three scalar components, indexed read and write
  access to them, componentwise arithmetic, the Euclidean 2-norm and the dot product
  written \<^verbatim>\<open>*\<close> between two vectors.
\<close>

datatype Coordinate = FieldVector FieldType FieldType FieldType

text \<open>
  Modelled from the spec: \<^verbatim>\<open>operator[]\<close> of the vector, reading. Outside the three
  stored components the value is left unspecified.
\<close>

fun subscript :: "Coordinate \<Rightarrow> nat \<Rightarrow> FieldType" where
  "subscript (FieldVector x y z) i =
     (if i = 0 then x else if i = 1 then y else if i = 2 then z else undefined)"

text \<open>Modelled from the spec: \<^verbatim>\<open>operator[]\<close> of the vector, writing one stored component.\<close>

fun assign :: "Coordinate \<Rightarrow> nat \<Rightarrow> FieldType \<Rightarrow> Coordinate" where
  "assign (FieldVector x y z) i v =
     (if i = 0 then FieldVector v y z
      else if i = 1 then FieldVector x v z
      else if i = 2 then FieldVector x y v
      else undefined)"

text \<open>
  Modelled from the spec: a default-constructed vector. Its components have not been given
  a value (Section 3 calls the state before the first \<^verbatim>\<open>bind\<close> uninitialized).
\<close>

definition FieldVector_default :: Coordinate where
  "FieldVector_default = FieldVector Undef Undef Undef"

text \<open>Modelled from the spec: componentwise \<^verbatim>\<open>operator-\<close> of two vectors.\<close>

instantiation Coordinate :: minus
begin

fun minus_Coordinate :: "Coordinate \<Rightarrow> Coordinate \<Rightarrow> Coordinate" where
  "minus_Coordinate (FieldVector x y z) (FieldVector x' y' z') =
     FieldVector (x - x') (y - y') (z - z')"

instance ..

end

text \<open>Modelled from the spec: \<^verbatim>\<open>operator*\<close> of a scalar and a vector.\<close>

fun scalar_times :: "FieldType \<Rightarrow> Coordinate \<Rightarrow> Coordinate" where
  "scalar_times s (FieldVector x y z) = FieldVector (s * x) (s * y) (s * z)"

text \<open>Modelled from the spec: \<^verbatim>\<open>operator/\<close> and \<^verbatim>\<open>operator/=\<close> of a vector and a scalar.\<close>

fun divided_by :: "Coordinate \<Rightarrow> FieldType \<Rightarrow> Coordinate" where
  "divided_by (FieldVector x y z) s = FieldVector (x / s) (y / s) (z / s)"

text \<open>Modelled from the spec: \<^verbatim>\<open>operator*\<close> of two vectors, the dot product.\<close>

fun dot :: "Coordinate \<Rightarrow> Coordinate \<Rightarrow> FieldType" where
  "dot (FieldVector x y z) (FieldVector x' y' z') = x * x' + y * y' + z * z'"

text \<open>Modelled from the spec: \<^verbatim>\<open>two_norm\<close>, the Euclidean length.\<close>

fun two_norm :: "Coordinate \<Rightarrow> FieldType" where
  "two_norm (FieldVector x y z) = fsqrt (x * x + y * y + z * z)"

subsection \<open>Dipoles: \<^verbatim>\<open>duneuro::Dipole<FieldType, 3>\<close>\<close>

text \<open>
  Modelled from the spec: the class \<^verbatim>\<open>duneuro::Dipole\<close> comes from the library duneuro
  and is not part of the repository. By Section 3 and 4.2 it is an immutable pair of a
  position and a moment with the read-only accessors \<^verbatim>\<open>position()\<close> and
  \<^verbatim>\<open>moment()\<close>.
\<close>

record Dipole =
  position :: Coordinate
  moment :: Coordinate

subsection \<open>The evaluator: \<^verbatim>\<open>AnalyticSolutionMEG<FieldType>\<close>\<close>

text \<open>
  The members \<^verbatim>\<open>sphereCenter_\<close>, \<^verbatim>\<open>scalingFactor_\<close> and \<^verbatim>\<open>moment_\<close> are written with
  a prime in place of the trailing underscore.
\<close>

record AnalyticSolutionMEG =
  sphereCenter' :: Coordinate
  scalingFactor' :: FieldType
  moment' :: Coordinate
  R_0 :: Coordinate

text \<open>
  The constructor sets the sphere center and the scaling factor; the members
  \<^verbatim>\<open>moment_\<close> and \<^verbatim>\<open>R_0\<close> are default-constructed and set later by \<^verbatim>\<open>bind\<close>.
\<close>

definition AnalyticSolutionMEG :: "Coordinate \<Rightarrow> FieldType \<Rightarrow> AnalyticSolutionMEG" where
  "AnalyticSolutionMEG sphereCenter scalingFactor =
     \<lparr>sphereCenter' = sphereCenter, scalingFactor' = scalingFactor,
      moment' = FieldVector_default, R_0 = FieldVector_default\<rparr>"

definition bind :: "AnalyticSolutionMEG \<Rightarrow> Dipole \<Rightarrow> AnalyticSolutionMEG" where
  "bind E dipole =
     E\<lparr>R_0 := position dipole - sphereCenter' E, moment' := moment dipole\<rparr>"

text \<open>
  \<^verbatim>\<open>crossProduct\<close>: the loop \<^verbatim>\<open>for(size_t i = 0; i < 3; ++i)\<close> writes component
  \<open>i\<close> of a default-constructed vector from the components \<open>j = (i + 1) % 3\<close> and
  \<open>k = (i + 2) % 3\<close> of the arguments.
\<close>

definition crossProduct :: "Coordinate \<Rightarrow> Coordinate \<Rightarrow> Coordinate" where
  "crossProduct vec_1 vec_2 =
     fold (\<lambda>i crossProd.
             let j = (i + 1) mod 3; k = (i + 2) mod 3
             in assign crossProd i
                  (subscript vec_1 j * subscript vec_2 k - subscript vec_1 k * subscript vec_2 j))
          [0..<3] FieldVector_default"

definition totalField :: "AnalyticSolutionMEG \<Rightarrow> Coordinate \<Rightarrow> Coordinate" where
  "totalField E coilPos =
     (let R = coilPos - sphereCenter' E;
          A = R - R_0 E;
          r = two_norm R;
          a = two_norm A;
          F = a * (r * a + r * r - dot (R_0 E) R);
          grad_F = scalar_times (a * a / r + dot A R / a + Exact 2 * (a + r)) R
                   - scalar_times (a + Exact 2 * r + dot A R / a) (R_0 E)
      in divided_by
           (scalar_times (scalingFactor' E)
              (scalar_times F (crossProduct (moment' E) (R_0 E))
               - scalar_times (dot (crossProduct (moment' E) (R_0 E)) R) grad_F))
           (F * F))"

definition totalField_dir :: "AnalyticSolutionMEG \<Rightarrow> Coordinate \<Rightarrow> Coordinate \<Rightarrow> FieldType" where
  "totalField_dir E coilPos direction = dot (totalField E coilPos) direction"

definition primaryField :: "AnalyticSolutionMEG \<Rightarrow> Coordinate \<Rightarrow> Coordinate" where
  "primaryField E coilPos =
     (let R = coilPos - sphereCenter' E;
          diff = R - R_0 E;
          diffNorm = two_norm diff;
          diff' = divided_by diff (diffNorm * diffNorm * diffNorm)
      in scalar_times (scalingFactor' E) (crossProduct (moment' E) diff'))"

definition primaryField_dir :: "AnalyticSolutionMEG \<Rightarrow> Coordinate \<Rightarrow> Coordinate \<Rightarrow> FieldType" where
  "primaryField_dir E coilPos direction = dot (primaryField E coilPos) direction"

definition secondaryField :: "AnalyticSolutionMEG \<Rightarrow> Coordinate \<Rightarrow> Coordinate" where
  "secondaryField E coilPos = primaryField E coilPos - totalField E coilPos"

definition secondaryField_dir :: "AnalyticSolutionMEG \<Rightarrow> Coordinate \<Rightarrow> Coordinate \<Rightarrow> FieldType" where
  "secondaryField_dir E coilPos direction =
     primaryField_dir E coilPos direction - totalField_dir E coilPos direction"

subsection \<open>The scalars of the binding: \<^verbatim>\<open>double\<close>\<close>

text \<open>
  The binding fixes \<^verbatim>\<open>using Scalar = double\<close>, the binary64 format of IEEE 754. A double
  is a finite real number with a significand of 53 bits (\<open>Finite\<close>, with \<open>Finite 0\<close> for
  the positive zero), the negative zero, one of the two infinities, or a NaN; NaNs are not
  told apart. The type does not itself restrict the real under \<open>Finite\<close>: the operations
  return doubles only, and a statement about all of its values holds of the doubles among
  them. An arithmetic operation returns the exact result rounded to the nearest
  double, ties going to the even significand, which is the rounding the program runs
  under. Every operator of the source is rounded on its own: the program is taken as
  compiled without fused multiply-add and without intermediate results of a higher
  precision.
\<close>

datatype double = Finite real | NegZero | PInf | NInf | NaN

text \<open>
  The spacing of the doubles around \<open>x\<close>: \<open>2\<^sup>e\<^sup>-\<^sup>5\<^sup>2\<close> where \<open>2\<^sup>e \<le> \<bar>x\<bar> < 2\<^sup>e\<^sup>+\<^sup>1\<close>, and
  \<open>2\<^sup>-\<^sup>1\<^sup>0\<^sup>7\<^sup>4\<close> for the subnormal numbers below \<open>2\<^sup>-\<^sup>1\<^sup>0\<^sup>2\<^sup>2\<close>.
\<close>

definition quantum :: "real \<Rightarrow> real" where
  "quantum x = 2 powi (max \<lfloor>log 2 \<bar>x\<bar>\<rfloor> (- 1022) - 52)"

text \<open>The nearest integer, a tie going to the even one.\<close>

definition round_half_even :: "real \<Rightarrow> int" where
  "round_half_even y =
     (let f = \<lfloor>y\<rfloor>
      in if y - of_int f < 1 / 2 then f
         else if 1 / 2 < y - of_int f then f + 1
         else if even f then f else f + 1)"

text \<open>
  Rounding a real number that is not zero: to the nearest multiple of the spacing; a
  result of \<open>2\<^sup>1\<^sup>0\<^sup>2\<^sup>4\<close> or more in magnitude overflows to an infinity, and a negative number
  that rounds to zero gives the negative zero.
\<close>

definition round_to_double :: "real \<Rightarrow> double" where
  "round_to_double x =
     (let y = of_int (round_half_even (x / quantum x)) * quantum x
      in if 2 powi 1024 \<le> \<bar>y\<bar> then (if x < 0 then NInf else PInf)
         else if y = 0 \<and> x < 0 then NegZero
         else Finite y)"

text \<open>The sign bit.\<close>

fun negative :: "double \<Rightarrow> bool" where
  "negative (Finite x) = (x < 0)"
| "negative NegZero = True"
| "negative PInf = False"
| "negative NInf = True"
| "negative NaN = False"

fun is_zero :: "double \<Rightarrow> bool" where
  "is_zero (Finite x) = (x = 0)"
| "is_zero NegZero = True"
| "is_zero _ = False"

fun is_inf :: "double \<Rightarrow> bool" where
  "is_inf PInf = True"
| "is_inf NInf = True"
| "is_inf _ = False"

text \<open>A double that is an infinity or a NaN.\<close>

fun nonfinite :: "double \<Rightarrow> bool" where
  "nonfinite (Finite x) = False"
| "nonfinite NegZero = False"
| "nonfinite _ = True"

fun value_of :: "double \<Rightarrow> real" where
  "value_of (Finite x) = x"
| "value_of _ = 0"

definition zero_of_sign :: "bool \<Rightarrow> double" where
  "zero_of_sign s = (if s then NegZero else Finite 0)"

definition inf_of_sign :: "bool \<Rightarrow> double" where
  "inf_of_sign s = (if s then NInf else PInf)"

text \<open>
  The operators \<^verbatim>\<open>+\<close>, \<^verbatim>\<open>-\<close>, \<^verbatim>\<open>*\<close> and \<^verbatim>\<open>/\<close> of \<^verbatim>\<open>double\<close>. A NaN operand gives
  NaN; so do \<open>\<infinity> - \<infinity>\<close>, \<open>0 \<sqdot> \<infinity>\<close>, \<open>0 / 0\<close> and \<open>\<infinity> / \<infinity>\<close>. A quotient of a
  number other than zero by zero is an infinity: no error is raised. A sum that is exactly
  zero is the positive zero, unless both summands are the negative zero; the sign of a
  product or quotient is the exclusive or of the signs.
\<close>

instantiation double :: "{uminus, plus, minus, times, inverse}"
begin

fun uminus_double :: "double \<Rightarrow> double" where
  "uminus_double (Finite x) = (if x = 0 then NegZero else Finite (- x))"
| "uminus_double NegZero = Finite 0"
| "uminus_double PInf = NInf"
| "uminus_double NInf = PInf"
| "uminus_double NaN = NaN"

definition plus_double :: "double \<Rightarrow> double \<Rightarrow> double" where
  "plus_double a b =
     (if a = NaN \<or> b = NaN then NaN
      else if is_inf a \<and> is_inf b then (if a = b then a else NaN)
      else if is_inf a then a
      else if is_inf b then b
      else if is_zero a \<and> is_zero b then zero_of_sign (negative a \<and> negative b)
      else if is_zero a then b
      else if is_zero b then a
      else if value_of a + value_of b = 0 then Finite 0
      else round_to_double (value_of a + value_of b))"

definition minus_double :: "double \<Rightarrow> double \<Rightarrow> double" where
  "minus_double a b = a + (- b)"

definition times_double :: "double \<Rightarrow> double \<Rightarrow> double" where
  "times_double a b =
     (if a = NaN \<or> b = NaN then NaN
      else if (is_inf a \<and> is_zero b) \<or> (is_zero a \<and> is_inf b) then NaN
      else if is_inf a \<or> is_inf b then inf_of_sign (negative a \<noteq> negative b)
      else if is_zero a \<or> is_zero b then zero_of_sign (negative a \<noteq> negative b)
      else round_to_double (value_of a * value_of b))"

definition divide_double :: "double \<Rightarrow> double \<Rightarrow> double" where
  "divide_double a b =
     (if a = NaN \<or> b = NaN then NaN
      else if (is_inf a \<and> is_inf b) \<or> (is_zero a \<and> is_zero b) then NaN
      else if is_inf a \<or> is_zero b then inf_of_sign (negative a \<noteq> negative b)
      else if is_inf b \<or> is_zero a then zero_of_sign (negative a \<noteq> negative b)
      else round_to_double (value_of a / value_of b))"

definition inverse_double :: "double \<Rightarrow> double" where
  "inverse_double a = divide (Finite 1) a"

instance ..

end

text \<open>\<^verbatim>\<open>sqrt\<close> of \<^verbatim>\<open><cmath>\<close> on \<^verbatim>\<open>double\<close>: correctly rounded, NaN on a negative argument.\<close>

fun sqrt_double :: "double \<Rightarrow> double" where
  "sqrt_double (Finite x) =
     (if x < 0 then NaN else if x = 0 then Finite 0 else round_to_double (sqrt x))"
| "sqrt_double NegZero = NegZero"
| "sqrt_double PInf = PInf"
| "sqrt_double NInf = NaN"
| "sqrt_double NaN = NaN"

subsection \<open>The class with \<^verbatim>\<open>FieldType = double\<close>\<close>

text \<open>
  The vector type, the dipole and the class once more, operator by operator as above, on
  \<open>double\<close>: this is the instance \<^verbatim>\<open>AnalyticSolutionMEG<Scalar>\<close> that the binding
  registers. The names carry the suffix \<open>_double\<close>.
\<close>

text \<open>Modelled from the spec: \<^verbatim>\<open>Dune::FieldVector<double, 3>\<close>, as \<open>Coordinate\<close> above.\<close>

datatype Coordinate_double = FieldVector_double double double double

text \<open>Modelled from the spec: \<^verbatim>\<open>operator[]\<close>, reading one of the three stored components.\<close>

fun subscript_double :: "Coordinate_double \<Rightarrow> nat \<Rightarrow> double" where
  "subscript_double (FieldVector_double x y z) i =
     (if i = 0 then x else if i = 1 then y else if i = 2 then z else undefined)"

text \<open>Modelled from the spec: \<^verbatim>\<open>operator[]\<close>, writing one of the three stored components.\<close>

fun assign_double :: "Coordinate_double \<Rightarrow> nat \<Rightarrow> double \<Rightarrow> Coordinate_double" where
  "assign_double (FieldVector_double x y z) i v =
     (if i = 0 then FieldVector_double v y z
      else if i = 1 then FieldVector_double x v z
      else if i = 2 then FieldVector_double x y v
      else undefined)"

text \<open>
  Modelled from the spec: a default-constructed vector, whose components have not been
  given a value; NaN stands for them.
\<close>

definition FieldVector_double_default :: Coordinate_double where
  "FieldVector_double_default = FieldVector_double NaN NaN NaN"

text \<open>Modelled from the spec: componentwise \<^verbatim>\<open>operator-\<close> of two vectors.\<close>

instantiation Coordinate_double :: minus
begin

fun minus_Coordinate_double :: "Coordinate_double \<Rightarrow> Coordinate_double \<Rightarrow> Coordinate_double" where
  "minus_Coordinate_double (FieldVector_double x y z) (FieldVector_double x' y' z') =
     FieldVector_double (x - x') (y - y') (z - z')"

instance ..

end

text \<open>Modelled from the spec: \<^verbatim>\<open>operator*\<close> of a scalar and a vector.\<close>

fun scalar_times_double :: "double \<Rightarrow> Coordinate_double \<Rightarrow> Coordinate_double" where
  "scalar_times_double s (FieldVector_double x y z) = FieldVector_double (s * x) (s * y) (s * z)"

text \<open>Modelled from the spec: \<^verbatim>\<open>operator/\<close> and \<^verbatim>\<open>operator/=\<close> of a vector and a scalar.\<close>

fun divided_by_double :: "Coordinate_double \<Rightarrow> double \<Rightarrow> Coordinate_double" where
  "divided_by_double (FieldVector_double x y z) s = FieldVector_double (x / s) (y / s) (z / s)"

text \<open>
  Modelled from the spec: \<^verbatim>\<open>operator*\<close> of two vectors, the dot product. The three
  products are added one after the other to a sum that starts at zero; on \<open>double\<close> the
  start matters for the sign of a sum that is zero.
\<close>

fun dot_double :: "Coordinate_double \<Rightarrow> Coordinate_double \<Rightarrow> double" where
  "dot_double (FieldVector_double x y z) (FieldVector_double x' y' z') =
     Finite 0 + x * x' + y * y' + z * z'"

text \<open>
  Modelled from the spec: \<^verbatim>\<open>two_norm\<close>, the Euclidean length: the square root of the
  sum of the three squares, added one after the other to a sum that starts at zero.
\<close>

fun two_norm_double :: "Coordinate_double \<Rightarrow> double" where
  "two_norm_double (FieldVector_double x y z) =
     sqrt_double (Finite 0 + x * x + y * y + z * z)"

text \<open>A vector all of whose components are infinities or NaNs.\<close>

fun all_nonfinite :: "Coordinate_double \<Rightarrow> bool" where
  "all_nonfinite (FieldVector_double x y z) = (nonfinite x \<and> nonfinite y \<and> nonfinite z)"

text \<open>Modelled from the spec: \<^verbatim>\<open>duneuro::Dipole<double, 3>\<close>, as \<open>Dipole\<close> above.\<close>

record Dipole_double =
  position_double :: Coordinate_double
  moment_double :: Coordinate_double

record AnalyticSolutionMEG_double =
  sphereCenter_double' :: Coordinate_double
  scalingFactor_double' :: double
  moment_double' :: Coordinate_double
  R_0_double :: Coordinate_double

definition AnalyticSolutionMEG_double ::
  "Coordinate_double \<Rightarrow> double \<Rightarrow> AnalyticSolutionMEG_double" where
  "AnalyticSolutionMEG_double sphereCenter scalingFactor =
     \<lparr>sphereCenter_double' = sphereCenter, scalingFactor_double' = scalingFactor,
      moment_double' = FieldVector_double_default, R_0_double = FieldVector_double_default\<rparr>"

definition bind_double ::
  "AnalyticSolutionMEG_double \<Rightarrow> Dipole_double \<Rightarrow> AnalyticSolutionMEG_double" where
  "bind_double E dipole =
     E\<lparr>R_0_double := position_double dipole - sphereCenter_double' E,
       moment_double' := moment_double dipole\<rparr>"

definition crossProduct_double ::
  "Coordinate_double \<Rightarrow> Coordinate_double \<Rightarrow> Coordinate_double" where
  "crossProduct_double vec_1 vec_2 =
     fold (\<lambda>i crossProd.
             let j = (i + 1) mod 3; k = (i + 2) mod 3
             in assign_double crossProd i
                  (subscript_double vec_1 j * subscript_double vec_2 k
                   - subscript_double vec_1 k * subscript_double vec_2 j))
          [0..<3] FieldVector_double_default"

definition totalField_double ::
  "AnalyticSolutionMEG_double \<Rightarrow> Coordinate_double \<Rightarrow> Coordinate_double" where
  "totalField_double E coilPos =
     (let R = coilPos - sphereCenter_double' E;
          A = R - R_0_double E;
          r = two_norm_double R;
          a = two_norm_double A;
          F = a * (r * a + r * r - dot_double (R_0_double E) R);
          grad_F = scalar_times_double (a * a / r + dot_double A R / a + Finite 2 * (a + r)) R
                   - scalar_times_double (a + Finite 2 * r + dot_double A R / a) (R_0_double E)
      in divided_by_double
           (scalar_times_double (scalingFactor_double' E)
              (scalar_times_double F (crossProduct_double (moment_double' E) (R_0_double E))
               - scalar_times_double
                   (dot_double (crossProduct_double (moment_double' E) (R_0_double E)) R) grad_F))
           (F * F))"

definition totalField_dir_double ::
  "AnalyticSolutionMEG_double \<Rightarrow> Coordinate_double \<Rightarrow> Coordinate_double \<Rightarrow> double" where
  "totalField_dir_double E coilPos direction = dot_double (totalField_double E coilPos) direction"

definition primaryField_double ::
  "AnalyticSolutionMEG_double \<Rightarrow> Coordinate_double \<Rightarrow> Coordinate_double" where
  "primaryField_double E coilPos =
     (let R = coilPos - sphereCenter_double' E;
          diff = R - R_0_double E;
          diffNorm = two_norm_double diff;
          diff' = divided_by_double diff (diffNorm * diffNorm * diffNorm)
      in scalar_times_double (scalingFactor_double' E)
           (crossProduct_double (moment_double' E) diff'))"

definition primaryField_dir_double ::
  "AnalyticSolutionMEG_double \<Rightarrow> Coordinate_double \<Rightarrow> Coordinate_double \<Rightarrow> double" where
  "primaryField_dir_double E coilPos direction =
     dot_double (primaryField_double E coilPos) direction"

definition secondaryField_double ::
  "AnalyticSolutionMEG_double \<Rightarrow> Coordinate_double \<Rightarrow> Coordinate_double" where
  "secondaryField_double E coilPos = primaryField_double E coilPos - totalField_double E coilPos"

definition secondaryField_dir_double ::
  "AnalyticSolutionMEG_double \<Rightarrow> Coordinate_double \<Rightarrow> Coordinate_double \<Rightarrow> double" where
  "secondaryField_dir_double E coilPos direction =
     primaryField_dir_double E coilPos direction - totalField_dir_double E coilPos direction"

subsection \<open>The Python binding\<close>

text \<open>
  A bound function returns a value or raises. The exceptions that the binding raises are
  the \<^verbatim>\<open>Dune::Exception\<close>s thrown by \<^verbatim>\<open>DUNE_THROW\<close>, kept here with the numbers that their
  messages print:
  \<^item> \<open>WrongType\<close>: buffer entries are of the wrong type;
  \<^item> \<open>WrongDimensions n\<close>: buffer has to consist of 1 dimension, but consists of \<open>n\<close>
    dimensions;
  \<^item> \<open>WrongEntries m n\<close>: buffer has to contain \<open>m\<close> entries, but contains \<open>n\<close> entries.

  \<open>Out_of_bounds\<close> is the third outcome of the C++ code: an access outside the storage of
  an object, where the language leaves the behaviour undefined. It is not an exception,
  and Python sees no error.
\<close>

type_synonym Scalar = double

datatype exception = WrongType | WrongDimensions int | WrongEntries nat int

datatype 'a result = Returns 'a | Raises exception | Out_of_bounds







text \<open>
  \<^verbatim>\<open>__getitem__\<close> and \<^verbatim>\<open>__setitem__\<close>, lines 88 to 97:
  \<^verbatim>\<open>return coordinate[index];\<close> and \<^verbatim>\<open>coordinate[index] = value;\<close> for an index of
  type \<^verbatim>\<open>size_t\<close>. Neither lambda compares the index with the size of the vector and
  neither throws, and the repository defines no bounds checking for the subscript
  operator; with an index of 3 or more the access leaves the three stored components.
  The value of \<open>setitem\<close> is the vector after the assignment.
\<close>

definition getitem :: "Coordinate_double \<Rightarrow> nat \<Rightarrow> Scalar result" where
  "getitem coordinate index =
     (if index < dim then Returns (subscript_double coordinate index) else Out_of_bounds)"

definition setitem :: "Coordinate_double \<Rightarrow> nat \<Rightarrow> Scalar \<Rightarrow> Coordinate_double result" where
  "setitem coordinate index v =
     (if index < dim then Returns (assign_double coordinate index v) else Out_of_bounds)"




subsection \<open>The formulas of the specification\<close>

text \<open>
  The specification states the fields as formulas of vector algebra over the reals. They
  are written here as the specification writes them, on triples of reals, to be compared
  with the code above. \<open>coordinate\<close> embeds a triple of reals into the vectors of the code.
\<close>

type_synonym vec3 = "real \<times> real \<times> real"

fun coordinate :: "vec3 \<Rightarrow> Coordinate" where
  "coordinate (x, y, z) = FieldVector (Exact x) (Exact y) (Exact z)"

fun v_minus :: "vec3 \<Rightarrow> vec3 \<Rightarrow> vec3" where
  "v_minus (x, y, z) (x', y', z') = (x - x', y - y', z - z')"

fun v_scale :: "real \<Rightarrow> vec3 \<Rightarrow> vec3" where
  "v_scale s (x, y, z) = (s * x, s * y, s * z)"

fun v_divide :: "vec3 \<Rightarrow> real \<Rightarrow> vec3" where
  "v_divide (x, y, z) s = (x / s, y / s, z / s)"

fun v_dot :: "vec3 \<Rightarrow> vec3 \<Rightarrow> real" where
  "v_dot (x, y, z) (x', y', z') = x * x' + y * y' + z * z'"

fun v_norm :: "vec3 \<Rightarrow> real" where
  "v_norm (x, y, z) = sqrt (x\<^sup>2 + y\<^sup>2 + z\<^sup>2)"

text \<open>The right-handed cross product, \<open>(u \<times> v)\<^sub>i = u\<^sub>i\<^sub>+\<^sub>1 v\<^sub>i\<^sub>+\<^sub>2 - u\<^sub>i\<^sub>+\<^sub>2 v\<^sub>i\<^sub>+\<^sub>1\<close> with cyclic indices.\<close>

fun v_cross :: "vec3 \<Rightarrow> vec3 \<Rightarrow> vec3" where
  "v_cross (u0, u1, u2) (v0, v1, v2) =
     (u1 * v2 - u2 * v1, u2 * v0 - u0 * v2, u0 * v1 - u1 * v0)"

text \<open>\<open>F = a (r a + r\<^sup>2 - R\<^sub>0 \<cdot> R)\<close> with \<open>A = R - R\<^sub>0\<close>, \<open>r = \<parallel>R\<parallel>\<close> and \<open>a = \<parallel>A\<parallel>\<close>.\<close>

definition spec_F :: "vec3 \<Rightarrow> vec3 \<Rightarrow> real" where
  "spec_F R0 R =
     (let A = v_minus R R0; r = v_norm R; a = v_norm A
      in a * (r * a + r\<^sup>2 - v_dot R0 R))"

text \<open>\<open>grad_F = (a\<^sup>2 / r + (A \<cdot> R) / a + 2 (a + r)) R - (a + 2 r + (A \<cdot> R) / a) R\<^sub>0\<close>.\<close>

definition spec_grad_F :: "vec3 \<Rightarrow> vec3 \<Rightarrow> vec3" where
  "spec_grad_F R0 R =
     (let A = v_minus R R0; r = v_norm R; a = v_norm A
      in v_minus (v_scale (a\<^sup>2 / r + v_dot A R / a + 2 * (a + r)) R)
                 (v_scale (a + 2 * r + v_dot A R / a) R0))"

text \<open>\<open>s [F (Q \<times> R\<^sub>0) - ((Q \<times> R\<^sub>0) \<cdot> R) grad_F] / F\<^sup>2\<close>.\<close>

definition spec_totalField :: "real \<Rightarrow> vec3 \<Rightarrow> vec3 \<Rightarrow> vec3 \<Rightarrow> vec3" where
  "spec_totalField s Q R0 R =
     v_divide
       (v_scale s (v_minus (v_scale (spec_F R0 R) (v_cross Q R0))
                           (v_scale (v_dot (v_cross Q R0) R) (spec_grad_F R0 R))))
       ((spec_F R0 R)\<^sup>2)"

text \<open>\<open>s (Q \<times> (R - R\<^sub>0)) / \<parallel>R - R\<^sub>0\<parallel>\<^sup>3\<close>.\<close>

definition spec_primaryField :: "real \<Rightarrow> vec3 \<Rightarrow> vec3 \<Rightarrow> vec3 \<Rightarrow> vec3" where
  "spec_primaryField s Q R0 R =
     v_divide (v_scale s (v_cross Q (v_minus R R0))) ((v_norm (v_minus R R0)) ^ 3)"

section \<open>Properties\<close>

subsection \<open>The vector operations on exact vectors\<close>

lemma crossProduct_explicit:
  "crossProduct (FieldVector u0 u1 u2) (FieldVector v0 v1 v2) =
     FieldVector (u1 * v2 - u2 * v1) (u2 * v0 - u0 * v2) (u0 * v1 - u1 * v0)"
  by (simp add: crossProduct_def FieldVector_default_def upt_rec Let_def)

lemma coordinate_minus: "coordinate u - coordinate v = coordinate (v_minus u v)"
  by (cases u; cases v) simp

lemma dot_coordinate: "dot (coordinate u) (coordinate v) = Exact (v_dot u v)"
  by (cases u; cases v) simp

lemma two_norm_coordinate: "two_norm (coordinate u) = Exact (v_norm u)"
  by (cases u) (simp add: power2_eq_square not_less)

lemma scalar_times_coordinate:
  "scalar_times (Exact s) (coordinate v) = coordinate (v_scale s v)"
  by (cases v) simp

lemma crossProduct_coordinate:
  "crossProduct (coordinate u) (coordinate v) = coordinate (v_cross u v)"
  by (cases u; cases v) (simp add: crossProduct_explicit)

lemma divided_by_zero: "divided_by X (Exact 0) = FieldVector Undef Undef Undef"
proof (cases X)
  case (FieldVector x y z)
  then show ?thesis by (cases x; cases y; cases z) simp_all
qed

lemma divided_by_coordinate:
  "divided_by (coordinate v) (Exact s) =
     (if s = 0 then FieldVector Undef Undef Undef else coordinate (v_divide v s))"
  by (cases v) simp

lemma v_norm_zero_iff: "v_norm u = 0 \<longleftrightarrow> u = (0, 0, 0)"
  by (cases u) (auto simp: add_nonneg_eq_0_iff)

lemma spec_F_nonzero:
  assumes "spec_F R0 R \<noteq> 0"
  shows "v_norm R \<noteq> 0" and "v_norm (v_minus R R0) \<noteq> 0"
proof -
  show "v_norm (v_minus R R0) \<noteq> 0"
    using assms by (auto simp: spec_F_def Let_def)
  show "v_norm R \<noteq> 0"
  proof
    assume z: "v_norm R = 0"
    then have "R = (0, 0, 0)" by (simp add: v_norm_zero_iff)
    then have "v_dot R0 R = 0" by (cases R0) simp
    with z assms show False by (simp add: spec_F_def Let_def)
  qed
qed

lemma v_minus_coincide: "v_minus (v_minus p C) (v_minus P C) = (0, 0, 0) \<longleftrightarrow> p = P"
  by (cases p; cases P; cases C) auto

lemma crossProduct_no_value:
  "crossProduct (coordinate Q) (FieldVector Undef Undef Undef) = FieldVector Undef Undef Undef"
  by (cases Q) (simp add: crossProduct_explicit)

lemma v_cross_divide:
  "v_scale s (v_cross Q (v_divide d x)) = v_divide (v_scale s (v_cross Q d)) x"
  by (cases Q; cases d) (simp flip: diff_divide_distrib)


subsection \<open>An evaluator bound to a dipole\<close>

lemma bind_new:
  "bind (AnalyticSolutionMEG (coordinate C) (Exact s))
        \<lparr>position = coordinate P, moment = coordinate Q\<rparr> =
     \<lparr>sphereCenter' = coordinate C, scalingFactor' = Exact s,
      moment' = coordinate Q, R_0 = coordinate (v_minus P C)\<rparr>"
  by (simp add: bind_def AnalyticSolutionMEG_def coordinate_minus)

subsection \<open>A worked configuration\<close>

text \<open>
  Sphere center at the origin, dipole at \<open>(0, 3, 0)\<close> with moment \<open>(1, 0, 0)\<close>, coil at
  \<open>(0, 3, 4)\<close>: then \<open>r = 5\<close>, \<open>a = 4\<close>, \<open>F = 144\<close>, \<open>Q \<times> R\<^sub>0 = (0, 0, 3)\<close> and
  \<open>grad_F = (0, 21.6, 100.8)\<close>.
\<close>

lemma sqrt_16: "sqrt 16 = 4"
  by (rule real_sqrt_unique) simp_all

lemma sqrt_25: "sqrt 25 = 5"
  by (rule real_sqrt_unique) simp_all


text \<open>
  The scenario of Section 8 of the specification: sphere center at the origin, dipole at
  \<open>(0, 0, 0.07)\<close> with moment \<open>(1, 0, 0)\<close>, scaling factor \<open>1\<close>, coil at \<open>(0, 0, 0.15)\<close>. The
  field is \<open>(0, -875/24, 0)\<close>, and its projection on the direction \<open>(0, 0, 1)\<close> is \<open>0\<close>.
\<close>

lemma totalField_scenario:
  "totalField (bind (AnalyticSolutionMEG (coordinate (0, 0, 0)) (Exact 1))
                    \<lparr>position = coordinate (0, 0, 7 / 100), moment = coordinate (1, 0, 0)\<rparr>)
              (coordinate (0, 0, 15 / 100)) =
     FieldVector (Exact 0) (Exact (- 875 / 24)) (Exact 0)"
  by (simp add: totalField_def bind_def AnalyticSolutionMEG_def Let_def crossProduct_explicit
      real_sqrt_mult real_sqrt_divide)

lemma totalField_dir_scenario:
  "totalField_dir (bind (AnalyticSolutionMEG (coordinate (0, 0, 0)) (Exact 1))
                    \<lparr>position = coordinate (0, 0, 7 / 100), moment = coordinate (1, 0, 0)\<rparr>)
              (coordinate (0, 0, 15 / 100)) (coordinate (0, 0, 1)) = Exact 0"
  by (simp only: totalField_dir_def totalField_scenario) simp

subsection \<open>Rounding to \<^verbatim>\<open>double\<close>\<close>

lemma floor_log2:
  assumes "2 powi e \<le> \<bar>x\<bar>" "\<bar>x\<bar> < 2 powi (e + 1)"
  shows "\<lfloor>log 2 \<bar>x\<bar>\<rfloor> = e"
proof -
  have "0 < (2::real) powi e" by simp
  with assms have pos: "0 < \<bar>x\<bar>" by linarith
  have a: "2 powr real_of_int e = (2::real) powi e"
    by (rule powr_real_of_int') simp_all
  have b: "2 powr real_of_int (e + 1) = (2::real) powi (e + 1)"
    by (rule powr_real_of_int') simp_all
  have "(\<lfloor>log 2 \<bar>x\<bar>\<rfloor> = e) = (2 powi e \<le> \<bar>x\<bar> \<and> \<bar>x\<bar> < 2 powi (e + 1))"
    using floor_log_eq_powr_iff [OF pos, of 2 e] by (simp only: a b)
  with assms show ?thesis by simp
qed

lemma quantum_eq:
  assumes "2 powi e \<le> \<bar>x\<bar>" "\<bar>x\<bar> < 2 powi (e + 1)"
  shows "quantum x = 2 powi (max e (- 1022) - 52)"
  by (simp add: quantum_def floor_log2 [OF assms])

lemma round_half_even_of_int: "round_half_even (of_int k) = k"
  by (simp add: round_half_even_def)

lemma round_half_even_close: "\<bar>of_int (round_half_even y) - y\<bar> \<le> 1 / 2"
  unfolding round_half_even_def Let_def by (auto; linarith)

lemma floor_log2_le:
  assumes "x \<noteq> 0"
  shows "2 powi \<lfloor>log 2 \<bar>x\<bar>\<rfloor> \<le> \<bar>x\<bar>"
proof -
  from assms have pos: "0 < \<bar>x\<bar>" by simp
  have a: "2 powr real_of_int \<lfloor>log 2 \<bar>x\<bar>\<rfloor> = (2::real) powi \<lfloor>log 2 \<bar>x\<bar>\<rfloor>"
    by (rule powr_real_of_int') simp_all
  from floor_log_eq_powr_iff [OF pos, of 2 "\<lfloor>log 2 \<bar>x\<bar>\<rfloor>"]
  have "2 powr real_of_int \<lfloor>log 2 \<bar>x\<bar>\<rfloor> \<le> \<bar>x\<bar>" by simp
  then show ?thesis by (simp only: a)
qed

lemma round_to_double_normal:
  assumes "2 powi e \<le> \<bar>x\<bar>" "\<bar>x\<bar> < 2 powi (e + 1)" "- 1022 \<le> e" "e \<le> 1022"
  shows "round_to_double x =
           Finite (of_int (round_half_even (x / 2 powi (e - 52))) * 2 powi (e - 52))"
proof -
  define q :: real where "q = 2 powi (e - 52)"
  define z where "z = x / q"
  define n where "n = round_half_even z"
  have q: "quantum x = q"
    using quantum_eq [OF assms(1,2)] assms(3) by (simp add: q_def max_def)
  have qpos: "0 < q" by (simp add: q_def)
  have e1: "(2::real) powi e = 2 ^ 52 * q"
    unfolding q_def by (simp add: power_int_diff)
  have e2: "(2::real) powi (e + 1) = 2 ^ 53 * q"
    unfolding q_def by (simp add: power_int_diff power_int_add)
  have az: "\<bar>z\<bar> = \<bar>x\<bar> / q"
    using qpos by (simp add: z_def)
  have z1: "4503599627370496 \<le> \<bar>z\<bar>"
    using assms(1) qpos unfolding e1 az by (simp add: field_simps)
  have z2: "\<bar>z\<bar> < 9007199254740992"
    using assms(2) qpos unfolding e2 az by (simp add: field_simps)
  have close: "\<bar>of_int n - z\<bar> \<le> 1 / 2"
    unfolding n_def by (rule round_half_even_close)
  have n1: "n \<noteq> 0"
  proof
    assume "n = 0"
    with close have "\<bar>z\<bar> \<le> 1 / 2" by simp
    with z1 show False by linarith
  qed
  have "\<bar>real_of_int n\<bar> < 9007199254740992 + 1"
    using close z2 by linarith
  then have "real_of_int \<bar>n\<bar> < real_of_int 9007199254740993"
    by simp
  then have "\<bar>n\<bar> < 9007199254740993"
    by (simp only: of_int_less_iff)
  then have "\<bar>n\<bar> \<le> 9007199254740992" by simp
  then have "real_of_int \<bar>n\<bar> \<le> real_of_int 9007199254740992"
    by (simp only: of_int_le_iff)
  then have n2: "\<bar>real_of_int n\<bar> \<le> 2 ^ 53"
    by simp
  have "\<bar>of_int n * q\<bar> = \<bar>real_of_int n\<bar> * q"
    using qpos by (simp add: abs_mult)
  also have "\<dots> \<le> 2 ^ 53 * q"
    using n2 qpos by simp
  also have "\<dots> = 2 powi (e + 1)" by (simp only: e2)
  also have "\<dots> \<le> 2 powi 1023"
    using assms(4) by (intro power_int_increasing) simp_all
  also have "\<dots> < (2::real) powi 1024"
    by (intro power_int_strict_increasing) simp_all
  finally have small: "\<not> 2 powi 1024 \<le> \<bar>of_int n * q\<bar>" by simp
  have nz: "of_int n * q \<noteq> 0"
    using n1 qpos by simp
  have "round_to_double x = Finite (of_int n * q)"
    using small nz
    by (simp add: round_to_double_def q Let_def flip: n_def z_def)
  then show ?thesis
    by (simp only: n_def z_def q_def)
qed

lemma round_to_double_representable:
  assumes "x = of_int m * 2 powi k" "m \<noteq> 0" "\<bar>m\<bar> < 2 ^ 53" "- 1074 \<le> k" "k \<le> 971"
  shows "round_to_double x = Finite x"
proof -
  define j where "j = max \<lfloor>log 2 \<bar>x\<bar>\<rfloor> (- 1022) - 52"
  have xnz: "x \<noteq> 0" using assms(1,2) by simp
  have m53: "\<bar>real_of_int m\<bar> < 2 ^ 53"
    using assms(3)
    by (metis (mono_tags, opaque_lifting) of_int_abs of_int_less_iff of_int_numeral of_int_power)
  have "\<bar>x\<bar> = \<bar>real_of_int m\<bar> * 2 powi k"
    unfolding assms(1) by (simp add: abs_mult)
  also have "\<dots> < 2 ^ 53 * 2 powi k"
    using m53 by simp
  also have "\<dots> = 2 powi (k + 53)"
    by (simp add: power_int_add)
  finally have up: "\<bar>x\<bar> < 2 powi (k + 53)" .
  have "\<lfloor>log 2 \<bar>x\<bar>\<rfloor> < k + 53"
  proof (rule ccontr)
    assume "\<not> \<lfloor>log 2 \<bar>x\<bar>\<rfloor> < k + 53"
    then have "(2::real) powi (k + 53) \<le> 2 powi \<lfloor>log 2 \<bar>x\<bar>\<rfloor>"
      by (intro power_int_increasing) simp_all
    with floor_log2_le [OF xnz] up show False by linarith
  qed
  with assms(4) have jk: "j \<le> k"
    by (simp add: j_def max_def)
  have q: "quantum x = 2 powi j"
    by (simp add: quantum_def j_def)
  have "2 powi k / (2::real) powi j = 2 powi (k - j)"
    by (simp add: power_int_diff)
  also have "\<dots> = 2 ^ nat (k - j)"
    using jk by (simp add: power_int_def)
  finally have d: "2 powi k / (2::real) powi j = of_int (2 ^ nat (k - j))" by simp
  have "x / 2 powi j = of_int m * (2 powi k / 2 powi j)"
    unfolding assms(1) by simp
  also have "\<dots> = of_int (m * 2 ^ nat (k - j))"
    unfolding d by simp
  finally have int: "x / 2 powi j = of_int (m * 2 ^ nat (k - j))" .
  have again: "of_int (m * 2 ^ nat (k - j)) * 2 powi j = x"
    using int by (simp add: field_simps)
  have "(2::real) powi (k + 53) \<le> 2 powi 1024"
    using assms(5) by (intro power_int_increasing) simp_all
  with up have small: "\<not> 2 powi 1024 \<le> \<bar>x\<bar>" by linarith
  show ?thesis
    using small xnz
    by (simp add: round_to_double_def q Let_def int round_half_even_of_int again
        del: of_int_mult of_int_power)
qed

lemma round_to_double_numeral [simp]:
  "(numeral n :: real) < 2 ^ 53 \<Longrightarrow> round_to_double (numeral n) = Finite (numeral n)"
  by (rule round_to_double_representable [of _ "numeral n" 0]) simp_all

lemma round_to_double_neg_numeral [simp]:
  "(numeral n :: real) < 2 ^ 53 \<Longrightarrow> round_to_double (- numeral n) = Finite (- numeral n)"
  by (rule round_to_double_representable [of _ "- numeral n" 0]) simp_all

lemma round_to_double_one [simp]: "round_to_double 1 = Finite 1"
  by (rule round_to_double_representable [of _ 1 0]) simp_all

lemma round_to_double_neg_one [simp]: "round_to_double (- 1) = Finite (- 1)"
  by (rule round_to_double_representable [of _ "- 1" 0]) simp_all

lemma round_tie_2: "round_to_double (9007199254740993 / 4503599627370496) = Finite 2"
  by (subst round_to_double_normal [of 1]) (simp_all add: round_half_even_def)

lemma round_2_55: "round_to_double 36028797018963968 = Finite 36028797018963968"
  by (rule round_to_double_representable [of _ 1 55]) simp_all

lemma round_2_55_m2: "round_to_double 36028797018963966 = Finite 36028797018963968"
  by (subst round_to_double_normal [of 54]) (simp_all add: round_half_even_def)





subsection \<open>The arithmetic of \<^verbatim>\<open>double\<close>\<close>

lemma plus_Finite [simp]:
  "Finite x + Finite y =
     (if x + y = 0 then Finite 0 else if x = 0 then Finite y else if y = 0 then Finite x
      else round_to_double (x + y))"
  by (auto simp: plus_double_def zero_of_sign_def)

lemma plus_NegZero [simp]:
  "Finite x + NegZero = Finite x" "NegZero + Finite x = Finite x" "NegZero + NegZero = NegZero"
  by (auto simp: plus_double_def zero_of_sign_def)

lemma plus_NaN [simp]: "NaN + a = NaN" "a + NaN = NaN"
  by (simp_all add: plus_double_def)

lemma minus_double [simp]: "a - b = a + (- b)" for a b :: double
  by (simp add: minus_double_def)

lemma times_Finite [simp]:
  "Finite x * Finite y =
     (if x = 0 \<or> y = 0 then zero_of_sign ((x < 0) \<noteq> (y < 0)) else round_to_double (x * y))"
  by (auto simp: times_double_def)

lemma times_NegZero [simp]:
  "Finite x * NegZero = zero_of_sign (\<not> x < 0)" "NegZero * Finite x = zero_of_sign (\<not> x < 0)"
  "NegZero * NegZero = Finite 0"
  by (auto simp: times_double_def zero_of_sign_def)

lemma times_NaN [simp]: "NaN * a = NaN" "a * NaN = NaN"
  by (simp_all add: times_double_def)

lemma divide_Finite [simp]:
  "Finite x / Finite y =
     (if x = 0 \<and> y = 0 then NaN
      else if y = 0 then inf_of_sign (x < 0)
      else if x = 0 then zero_of_sign (y < 0)
      else round_to_double (x / y))"
  by (auto simp: divide_double_def)

lemma divide_NegZero [simp]:
  "NegZero / Finite y = (if y = 0 then NaN else zero_of_sign (\<not> y < 0))"
  "Finite x / NegZero = (if x = 0 then NaN else inf_of_sign (\<not> x < 0))"
  "NegZero / NegZero = NaN"
  by (auto simp: divide_double_def)

lemma divide_NaN [simp]: "NaN / a = NaN" "a / NaN = NaN"
  by (simp_all add: divide_double_def)

lemma crossProduct_double_explicit:
  "crossProduct_double (FieldVector_double u0 u1 u2) (FieldVector_double v0 v1 v2) =
     FieldVector_double (u1 * v2 - u2 * v1) (u2 * v0 - u0 * v2) (u0 * v1 - u1 * v0)"
  by (simp add: crossProduct_double_def FieldVector_double_default_def upt_rec Let_def del: minus_double)

lemma self_difference: "x - x = Finite 0 \<or> x - x = NaN" for x :: double
  by (cases x) (simp_all add: plus_double_def zero_of_sign_def)

lemma degenerate_quotient:
  assumes "x = Finite 0 \<or> x = NaN" "y = Finite 0 \<or> y = NaN" "z = Finite 0 \<or> z = NaN"
  shows "divided_by_double (FieldVector_double x y z)
           (two_norm_double (FieldVector_double x y z) * two_norm_double (FieldVector_double x y z)
              * two_norm_double (FieldVector_double x y z)) =
         FieldVector_double NaN NaN NaN"
  using assms by (auto simp: zero_of_sign_def)

lemma crossProduct_double_NaN:
  "crossProduct_double Q (FieldVector_double NaN NaN NaN) = FieldVector_double NaN NaN NaN"
  by (cases Q) (simp add: crossProduct_double_explicit)

lemma scalar_times_double_NaN:
  "scalar_times_double s (FieldVector_double NaN NaN NaN) = FieldVector_double NaN NaN NaN"
  by simp

lemma nonfinite_divide_zero: "is_zero b \<Longrightarrow> nonfinite (a / b)"
  by (cases a; cases b) (auto simp: divide_double_def inf_of_sign_def)

lemma nonfinite_times: "nonfinite b \<Longrightarrow> nonfinite (a * b)"
  by (cases a; cases b) (auto simp: times_double_def inf_of_sign_def)

lemma nonfinite_times_left: "nonfinite a \<Longrightarrow> nonfinite (a * b)"
  by (cases a; cases b) (auto simp: times_double_def inf_of_sign_def)

lemma nonfinite_minus: "nonfinite a \<Longrightarrow> nonfinite b \<Longrightarrow> nonfinite (a - b)"
  by (cases a; cases b) (auto simp: plus_double_def)

lemma is_zero_times: "is_zero a \<Longrightarrow> is_zero b \<Longrightarrow> is_zero (a * b)"
  by (cases a; cases b) (auto simp: times_double_def zero_of_sign_def)

lemma all_nonfinite_divided_by_zero: "is_zero z \<Longrightarrow> all_nonfinite (divided_by_double X z)"
  by (cases X) (simp add: nonfinite_divide_zero)

subsection \<open>Degenerate denominators on \<^verbatim>\<open>double\<close>\<close>

lemma primaryField_double_on_dipole:
  "primaryField_double (bind_double (AnalyticSolutionMEG_double C s)
      \<lparr>position_double = P, moment_double = Q\<rparr>) P = FieldVector_double NaN NaN NaN"
proof -
  obtain x y z where d: "P - C = FieldVector_double x y z"
    by (cases "P - C") auto
  have "(P - C) - (P - C) = FieldVector_double (x - x) (y - y) (z - z)"
    unfolding d by (simp del: minus_double)
  moreover note self_difference [of x] self_difference [of y] self_difference [of z]
  ultimately have "divided_by_double ((P - C) - (P - C))
           (two_norm_double ((P - C) - (P - C)) * two_norm_double ((P - C) - (P - C))
              * two_norm_double ((P - C) - (P - C))) =
         FieldVector_double NaN NaN NaN"
    by (simp only: degenerate_quotient)
  then show ?thesis
    by (simp add: primaryField_double_def bind_double_def AnalyticSolutionMEG_double_def Let_def
        crossProduct_double_NaN del: minus_double)
qed

lemma primaryField_double_zero_denominator:
  assumes "is_zero (two_norm_double ((p - C) - (P - C)) * two_norm_double ((p - C) - (P - C))
                      * two_norm_double ((p - C) - (P - C)))"
  shows "all_nonfinite (primaryField_double (bind_double (AnalyticSolutionMEG_double C s)
      \<lparr>position_double = P, moment_double = Q\<rparr>) p)"
proof -
  define n3 where "n3 = two_norm_double ((p - C) - (P - C)) * two_norm_double ((p - C) - (P - C))
                      * two_norm_double ((p - C) - (P - C))"
  obtain x y z where d: "(p - C) - (P - C) = FieldVector_double x y z"
    by (cases "(p - C) - (P - C)") auto
  obtain q0 q1 q2 where q: "Q = FieldVector_double q0 q1 q2"
    by (cases Q) auto
  from assms have z: "is_zero n3" by (simp only: n3_def)
  note nf = nonfinite_divide_zero [OF z]
  have "primaryField_double (bind_double (AnalyticSolutionMEG_double C s)
      \<lparr>position_double = P, moment_double = Q\<rparr>) p =
      scalar_times_double s (crossProduct_double Q (divided_by_double (FieldVector_double x y z) n3))"
    by (simp add: primaryField_double_def bind_double_def AnalyticSolutionMEG_double_def Let_def
        d n3_def del: minus_double)
  also have "\<dots> = FieldVector_double
      (s * (q1 * (z / n3) - q2 * (y / n3)))
      (s * (q2 * (x / n3) - q0 * (z / n3)))
      (s * (q0 * (y / n3) - q1 * (x / n3)))"
    by (simp add: q crossProduct_double_explicit del: minus_double)
  finally show ?thesis
    by (simp add: nonfinite_times nonfinite_minus nf del: minus_double)
qed

lemma totalField_double_zero_denominator:
  assumes "is_zero (two_norm_double ((p - C) - (P - C))
             * (two_norm_double (p - C) * two_norm_double ((p - C) - (P - C))
                + two_norm_double (p - C) * two_norm_double (p - C)
                - dot_double (P - C) (p - C)))"
  shows "all_nonfinite (totalField_double (bind_double (AnalyticSolutionMEG_double C s)
           \<lparr>position_double = P, moment_double = Q\<rparr>) p)"
proof -
  define F where "F = two_norm_double ((p - C) - (P - C))
             * (two_norm_double (p - C) * two_norm_double ((p - C) - (P - C))
                + two_norm_double (p - C) * two_norm_double (p - C)
                - dot_double (P - C) (p - C))"
  from assms have "is_zero F" by (simp only: F_def)
  then have z: "is_zero (F * F)" by (simp add: is_zero_times)
  have "\<exists>X. totalField_double (bind_double (AnalyticSolutionMEG_double C s)
           \<lparr>position_double = P, moment_double = Q\<rparr>) p = divided_by_double X (F * F)"
    by (intro exI)
       (simp add: totalField_double_def bind_double_def AnalyticSolutionMEG_double_def Let_def
          F_def del: minus_double)
  then obtain X where "totalField_double (bind_double (AnalyticSolutionMEG_double C s)
           \<lparr>position_double = P, moment_double = Q\<rparr>) p = divided_by_double X (F * F)" ..
  with all_nonfinite_divided_by_zero [OF z] show ?thesis by simp
qed

subsection \<open>Worked configurations on \<^verbatim>\<open>double\<close>\<close>

lemma primaryField_double_example:
  "primaryField_double
     (bind_double (AnalyticSolutionMEG_double (FieldVector_double (Finite 0) (Finite 0) (Finite 0)) (Finite 1))
        \<lparr>position_double = FieldVector_double (Finite 1) (Finite 0) (Finite 1),
         moment_double = FieldVector_double (Finite 0) (Finite 1) (Finite 0)\<rparr>)
     (FieldVector_double (Finite 0) (Finite 0) (Finite 1)) =
   FieldVector_double (Finite 0) NegZero (Finite 1)"
  by (simp add: primaryField_double_def bind_double_def AnalyticSolutionMEG_double_def Let_def
      crossProduct_double_explicit zero_of_sign_def inf_of_sign_def)

lemma totalField_double_example:
  "totalField_double
     (bind_double (AnalyticSolutionMEG_double (FieldVector_double (Finite 0) (Finite 0) (Finite 0)) (Finite 1))
        \<lparr>position_double = FieldVector_double (Finite 1) (Finite 0) (Finite 1),
         moment_double = FieldVector_double (Finite 0) (Finite 1) (Finite 0)\<rparr>)
     (FieldVector_double (Finite 0) (Finite 0) (Finite 1)) =
   FieldVector_double (Finite (- 2)) (Finite 0) (Finite 1)"
  by (simp add: totalField_double_def bind_double_def AnalyticSolutionMEG_double_def Let_def
      crossProduct_double_explicit zero_of_sign_def inf_of_sign_def)




section \<open>The claims\<close>

text \<open>
  C1. For an evaluator with sphere center \<open>C\<close> and scaling factor \<open>s\<close>, bound to a dipole at
  position \<open>P\<close> with moment \<open>Q\<close>, so that \<open>R\<^sub>0 = P - C\<close>, \<^verbatim>\<open>totalField\<close> at the coil
  position \<open>p\<close> returns \<open>s [F (Q \<times> R\<^sub>0) - ((Q \<times> R\<^sub>0) \<cdot> R) grad_F] / F\<^sup>2\<close> with \<open>R = p - C\<close>
  and \<open>F\<close>, \<open>grad_F\<close> as in the specification, the cross product being the right-handed
  one. Where \<open>F = 0\<close> the quotient does not exist and no component has a value.
\<close>

theorem totalField_sarvas_formula:
  "totalField (bind (AnalyticSolutionMEG (coordinate C) (Exact s))
                    \<lparr>position = coordinate P, moment = coordinate Q\<rparr>) (coordinate p) =
     (if spec_F (v_minus P C) (v_minus p C) = 0 then FieldVector Undef Undef Undef
      else coordinate (spec_totalField s Q (v_minus P C) (v_minus p C))) \<and>
   crossProduct (coordinate u) (coordinate v) = coordinate (v_cross u v)"
proof -
  have "totalField (bind (AnalyticSolutionMEG (coordinate C) (Exact s))
                    \<lparr>position = coordinate P, moment = coordinate Q\<rparr>) (coordinate p) =
     (if spec_F (v_minus P C) (v_minus p C) = 0 then FieldVector Undef Undef Undef
      else coordinate (spec_totalField s Q (v_minus P C) (v_minus p C)))"
  proof (cases "spec_F (v_minus P C) (v_minus p C) = 0")
    case True
    then have "v_norm (v_minus (v_minus p C) (v_minus P C)) *
        (v_norm (v_minus p C) * v_norm (v_minus (v_minus p C) (v_minus P C))
          + v_norm (v_minus p C) * v_norm (v_minus p C) - v_dot (v_minus P C) (v_minus p C)) = 0"
      by (simp add: spec_F_def Let_def power2_eq_square)
    then have "totalField (bind (AnalyticSolutionMEG (coordinate C) (Exact s))
                      \<lparr>position = coordinate P, moment = coordinate Q\<rparr>) (coordinate p) =
       FieldVector Undef Undef Undef"
      by (simp add: bind_new totalField_def Let_def coordinate_minus
          two_norm_coordinate dot_coordinate divided_by_zero del: mult_eq_0_iff)
    with True show ?thesis by simp
  next
    case False
    note nz = spec_F_nonzero [OF False]
    have "totalField (bind (AnalyticSolutionMEG (coordinate C) (Exact s))
                      \<lparr>position = coordinate P, moment = coordinate Q\<rparr>) (coordinate p) =
       coordinate (spec_totalField s Q (v_minus P C) (v_minus p C))"
      using False nz
      by (simp add: bind_new totalField_def Let_def coordinate_minus
          two_norm_coordinate dot_coordinate scalar_times_coordinate crossProduct_coordinate
          divided_by_coordinate spec_totalField_def spec_F_def spec_grad_F_def power2_eq_square)
    with False show ?thesis by simp
  qed
  then show ?thesis
    by (simp only: crossProduct_coordinate)
qed

text \<open>The worked configuration, where \<open>F = 144\<close> and the field is \<open>(0, -1/80, -3/80)\<close>.\<close>

theorem totalField_sarvas_formula_witness:
  "spec_F (v_minus (0, 3, 0) (0, 0, 0)) (v_minus (0, 3, 4) (0, 0, 0)) = 144 \<and>
   totalField (bind (AnalyticSolutionMEG (coordinate (0, 0, 0)) (Exact 1))
                    \<lparr>position = coordinate (0, 3, 0), moment = coordinate (1, 0, 0)\<rparr>)
              (coordinate (0, 3, 4)) =
     FieldVector (Exact 0) (Exact (- 1 / 80)) (Exact (- 3 / 80))"
  using totalField_sarvas_formula [of "(0, 0, 0)" 1 "(0, 3, 0)" "(1, 0, 0)" "(0, 3, 4)"
      "(1, 0, 0)" "(0, 3, 0)"]
  by (simp add: spec_totalField_def spec_F_def spec_grad_F_def sqrt_16 sqrt_25)

text \<open>
  C2 as stated does not hold of the instance on \<^verbatim>\<open>double\<close>: the denominator is also zero
  at coil positions other than the position of the dipole. Take the sphere center
  \<open>(-1, 0, 0)\<close>, the dipole at \<open>(1, 0, 0)\<close> and the coil at \<open>(1 + 2\<^sup>-\<^sup>5\<^sup>2, 0, 0)\<close>, the double
  next to 1. Then \<open>R\<^sub>0 = (2, 0, 0)\<close>, and \<open>R\<close> is \<open>2 + 2\<^sup>-\<^sup>5\<^sup>2\<close> rounded, which is the tie
  between \<open>2\<close> and \<open>2 + 2\<^sup>-\<^sup>5\<^sup>1\<close> and goes to 2. So \<open>R - R\<^sub>0\<close> is the zero vector, the cube of
  its norm is zero, and all three components of the result are NaN.
\<close>

theorem primaryField_degenerate_counterexample:
  "round_to_double (4503599627370497 / 4503599627370496) =
     Finite (4503599627370497 / 4503599627370496) \<and>
   FieldVector_double (Finite (4503599627370497 / 4503599627370496)) (Finite 0) (Finite 0) \<noteq>
     FieldVector_double (Finite 1) (Finite 0) (Finite 0) \<and>
   primaryField_double
     (bind_double
        (AnalyticSolutionMEG_double (FieldVector_double (Finite (- 1)) (Finite 0) (Finite 0))
           (Finite 1))
        \<lparr>position_double = FieldVector_double (Finite 1) (Finite 0) (Finite 0),
         moment_double = FieldVector_double (Finite 0) (Finite 1) (Finite 0)\<rparr>)
     (FieldVector_double (Finite (4503599627370497 / 4503599627370496)) (Finite 0) (Finite 0)) =
   FieldVector_double NaN NaN NaN"
proof -
  have "round_to_double (4503599627370497 / 4503599627370496) =
     Finite (4503599627370497 / 4503599627370496)"
    by (rule round_to_double_representable [of _ 4503599627370497 "- 52"])
       (simp_all add: power_int_minus)
  moreover have "primaryField_double
     (bind_double
        (AnalyticSolutionMEG_double (FieldVector_double (Finite (- 1)) (Finite 0) (Finite 0))
           (Finite 1))
        \<lparr>position_double = FieldVector_double (Finite 1) (Finite 0) (Finite 0),
         moment_double = FieldVector_double (Finite 0) (Finite 1) (Finite 0)\<rparr>)
     (FieldVector_double (Finite (4503599627370497 / 4503599627370496)) (Finite 0) (Finite 0)) =
   FieldVector_double NaN NaN NaN"
    by (simp add: primaryField_double_def bind_double_def AnalyticSolutionMEG_double_def Let_def
        crossProduct_double_explicit zero_of_sign_def inf_of_sign_def round_tie_2)
  ultimately show ?thesis by simp
qed

text \<open>
  C2, amended. For an evaluator with sphere center \<open>C\<close> and scaling factor \<open>s\<close>, bound to a
  dipole at position \<open>P\<close> with moment \<open>Q\<close>, \<^verbatim>\<open>primaryField\<close> at the coil position \<open>p\<close> forms
  \<open>D = (p - C) - (P - C)\<close>, divides it by \<open>n n n\<close> for \<open>n\<close> the norm of \<open>D\<close>, and returns
  \<open>s\<close> times the cross product of \<open>Q\<close> with that quotient, every operation rounded.
  \<^item> On \<^verbatim>\<open>double\<close>: with the coil on the dipole all three components are NaN; whenever the
    computed denominator \<open>n n n\<close> is zero, every component is an infinity or a NaN. The
    computed denominator is zero also at other coil positions than the dipole's.
  \<^item> In exact arithmetic the result is \<open>s (Q \<times> (R - R\<^sub>0)) / \<parallel>R - R\<^sub>0\<parallel>\<^sup>3\<close> for \<open>R = p - C\<close> and
    \<open>R\<^sub>0 = P - C\<close>, and the denominator is zero exactly when \<open>p = P\<close>.
\<close>

theorem primaryField_degenerate:
  "primaryField_double (bind_double (AnalyticSolutionMEG_double C s)
                          \<lparr>position_double = P, moment_double = Q\<rparr>) p =
     (let D = (p - C) - (P - C); n = two_norm_double D
      in scalar_times_double s (crossProduct_double Q (divided_by_double D (n * n * n)))) \<and>
   primaryField_double (bind_double (AnalyticSolutionMEG_double C s)
                          \<lparr>position_double = P, moment_double = Q\<rparr>) P =
     FieldVector_double NaN NaN NaN \<and>
   (is_zero (two_norm_double ((p - C) - (P - C)) * two_norm_double ((p - C) - (P - C))
               * two_norm_double ((p - C) - (P - C))) \<longrightarrow>
      all_nonfinite (primaryField_double (bind_double (AnalyticSolutionMEG_double C s)
                                            \<lparr>position_double = P, moment_double = Q\<rparr>) p)) \<and>
   primaryField (bind (AnalyticSolutionMEG (coordinate C') (Exact s'))
                      \<lparr>position = coordinate P', moment = coordinate Q'\<rparr>) (coordinate p') =
     (if p' = P' then FieldVector Undef Undef Undef
      else coordinate (spec_primaryField s' Q' (v_minus P' C') (v_minus p' C'))) \<and>
   (v_norm (v_minus (v_minus p' C') (v_minus P' C')) ^ 3 = 0 \<longleftrightarrow> p' = P')"
proof -
  have code: "primaryField_double (bind_double (AnalyticSolutionMEG_double C s)
                          \<lparr>position_double = P, moment_double = Q\<rparr>) p =
     (let D = (p - C) - (P - C); n = two_norm_double D
      in scalar_times_double s (crossProduct_double Q (divided_by_double D (n * n * n))))"
    by (simp add: primaryField_double_def bind_double_def AnalyticSolutionMEG_double_def Let_def
        del: minus_double)
  have denominator: "v_norm (v_minus (v_minus p' C') (v_minus P' C')) = 0 \<longleftrightarrow> p' = P'"
    by (simp add: v_norm_zero_iff v_minus_coincide)
  have exact: "primaryField (bind (AnalyticSolutionMEG (coordinate C') (Exact s'))
                      \<lparr>position = coordinate P', moment = coordinate Q'\<rparr>) (coordinate p') =
     (if p' = P' then FieldVector Undef Undef Undef
      else coordinate (spec_primaryField s' Q' (v_minus P' C') (v_minus p' C')))"
  proof (cases "p' = P'")
    case True
    with denominator have "v_norm (v_minus (v_minus p' C') (v_minus P' C')) = 0"
      by simp
    then have "primaryField (bind (AnalyticSolutionMEG (coordinate C') (Exact s'))
                        \<lparr>position = coordinate P', moment = coordinate Q'\<rparr>) (coordinate p') =
       FieldVector Undef Undef Undef"
      by (simp add: bind_new primaryField_def Let_def coordinate_minus two_norm_coordinate
          divided_by_coordinate crossProduct_no_value)
    with True show ?thesis by simp
  next
    case False
    with denominator have "v_norm (v_minus (v_minus p' C') (v_minus P' C')) \<noteq> 0"
      by simp
    then have "primaryField (bind (AnalyticSolutionMEG (coordinate C') (Exact s'))
                        \<lparr>position = coordinate P', moment = coordinate Q'\<rparr>) (coordinate p') =
       coordinate (spec_primaryField s' Q' (v_minus P' C') (v_minus p' C'))"
      by (simp add: bind_new primaryField_def Let_def coordinate_minus two_norm_coordinate
          divided_by_coordinate crossProduct_coordinate scalar_times_coordinate
          spec_primaryField_def v_cross_divide power3_eq_cube)
    with False show ?thesis by simp
  qed
  from denominator
  have cube: "v_norm (v_minus (v_minus p' C') (v_minus P' C')) ^ 3 = 0 \<longleftrightarrow> p' = P'"
    by simp
  from code primaryField_double_on_dipole [of C s P Q]
    primaryField_double_zero_denominator [of p C P s Q] exact cube
  show ?thesis by (intro conjI impI)
qed

text \<open>
  At the coil position of the counterexample the computed denominator is zero and the
  components are NaN. In exact arithmetic, for the dipole at \<open>(0, 3, 0)\<close> with moment
  \<open>(1, 0, 0)\<close>, the primary field at \<open>(0, 3, 4)\<close> is \<open>(0, -1/16, 0)\<close>; with the coil on the
  dipole it has no value.
\<close>

theorem primaryField_degenerate_witness:
  "is_zero
     (two_norm_double
        ((FieldVector_double (Finite (4503599627370497 / 4503599627370496)) (Finite 0) (Finite 0)
            - FieldVector_double (Finite (- 1)) (Finite 0) (Finite 0))
         - (FieldVector_double (Finite 1) (Finite 0) (Finite 0)
            - FieldVector_double (Finite (- 1)) (Finite 0) (Finite 0)))
      * two_norm_double
        ((FieldVector_double (Finite (4503599627370497 / 4503599627370496)) (Finite 0) (Finite 0)
            - FieldVector_double (Finite (- 1)) (Finite 0) (Finite 0))
         - (FieldVector_double (Finite 1) (Finite 0) (Finite 0)
            - FieldVector_double (Finite (- 1)) (Finite 0) (Finite 0)))
      * two_norm_double
        ((FieldVector_double (Finite (4503599627370497 / 4503599627370496)) (Finite 0) (Finite 0)
            - FieldVector_double (Finite (- 1)) (Finite 0) (Finite 0))
         - (FieldVector_double (Finite 1) (Finite 0) (Finite 0)
            - FieldVector_double (Finite (- 1)) (Finite 0) (Finite 0)))) \<and>
   all_nonfinite
     (primaryField_double
        (bind_double
           (AnalyticSolutionMEG_double (FieldVector_double (Finite (- 1)) (Finite 0) (Finite 0))
              (Finite 1))
           \<lparr>position_double = FieldVector_double (Finite 1) (Finite 0) (Finite 0),
            moment_double = FieldVector_double (Finite 0) (Finite 1) (Finite 0)\<rparr>)
        (FieldVector_double (Finite (4503599627370497 / 4503599627370496)) (Finite 0)
           (Finite 0))) \<and>
   (0, 3, 4) \<noteq> ((0, 3, 0) :: vec3) \<and>
   primaryField (bind (AnalyticSolutionMEG (coordinate (0, 0, 0)) (Exact 1))
                    \<lparr>position = coordinate (0, 3, 0), moment = coordinate (1, 0, 0)\<rparr>)
              (coordinate (0, 3, 4)) =
     FieldVector (Exact 0) (Exact (- 1 / 16)) (Exact 0) \<and>
   primaryField (bind (AnalyticSolutionMEG (coordinate (0, 0, 0)) (Exact 1))
                    \<lparr>position = coordinate (0, 3, 0), moment = coordinate (1, 0, 0)\<rparr>)
              (coordinate (0, 3, 0)) =
     FieldVector Undef Undef Undef"
proof -
  have h: "is_zero
     (two_norm_double
        ((FieldVector_double (Finite (4503599627370497 / 4503599627370496)) (Finite 0) (Finite 0)
            - FieldVector_double (Finite (- 1)) (Finite 0) (Finite 0))
         - (FieldVector_double (Finite 1) (Finite 0) (Finite 0)
            - FieldVector_double (Finite (- 1)) (Finite 0) (Finite 0)))
      * two_norm_double
        ((FieldVector_double (Finite (4503599627370497 / 4503599627370496)) (Finite 0) (Finite 0)
            - FieldVector_double (Finite (- 1)) (Finite 0) (Finite 0))
         - (FieldVector_double (Finite 1) (Finite 0) (Finite 0)
            - FieldVector_double (Finite (- 1)) (Finite 0) (Finite 0)))
      * two_norm_double
        ((FieldVector_double (Finite (4503599627370497 / 4503599627370496)) (Finite 0) (Finite 0)
            - FieldVector_double (Finite (- 1)) (Finite 0) (Finite 0))
         - (FieldVector_double (Finite 1) (Finite 0) (Finite 0)
            - FieldVector_double (Finite (- 1)) (Finite 0) (Finite 0))))"
    by (simp add: zero_of_sign_def round_tie_2)
  have e: "spec_primaryField 1 (1, 0, 0) (v_minus (0, 3, 0) (0, 0, 0))
             (v_minus (0, 3, 4) (0, 0, 0)) = (0, - 1 / 16, 0)"
    by (simp add: spec_primaryField_def sqrt_16)
  from h
    primaryField_degenerate
      [of "FieldVector_double (Finite (- 1)) (Finite 0) (Finite 0)" "Finite 1"
          "FieldVector_double (Finite 1) (Finite 0) (Finite 0)"
          "FieldVector_double (Finite 0) (Finite 1) (Finite 0)"
          "FieldVector_double (Finite (4503599627370497 / 4503599627370496)) (Finite 0) (Finite 0)"
          "(0, 0, 0)" 1 "(0, 3, 0)" "(1, 0, 0)" "(0, 3, 4)"]
    primaryField_degenerate
      [of "FieldVector_double (Finite (- 1)) (Finite 0) (Finite 0)" "Finite 1"
          "FieldVector_double (Finite 1) (Finite 0) (Finite 0)"
          "FieldVector_double (Finite 0) (Finite 1) (Finite 0)"
          "FieldVector_double (Finite (4503599627370497 / 4503599627370496)) (Finite 0) (Finite 0)"
          "(0, 0, 0)" 1 "(0, 3, 0)" "(1, 0, 0)" "(0, 3, 0)"]
  show ?thesis
    by (simp only: e) simp
qed

text \<open>
  C3. For every evaluator and every query point \<open>p\<close>, \<^verbatim>\<open>secondaryField(p)\<close> is
  \<^verbatim>\<open>primaryField(p) - totalField(p)\<close>, one rounded subtraction for each component, and
  for every direction \<open>d\<close> the scalar overload \<^verbatim>\<open>secondaryField(p, d)\<close> is the rounded
  difference of the two scalar overloads, that is of the two projections
  \<open>primaryField(p) \<cdot> d\<close> and \<open>totalField(p) \<cdot> d\<close>. This is not the projection of the vector
  \<^verbatim>\<open>secondaryField(p)\<close> on \<open>d\<close>, from which it differs on \<^verbatim>\<open>double\<close>: for the evaluator
  with sphere center \<open>(0, 0, 0)\<close> and scaling factor 1, bound to the dipole at \<open>(1, 0, 1)\<close>
  with moment \<open>(0, 1, 0)\<close>, the primary field at \<open>p = (0, 0, 1)\<close> is \<open>(0, -0, 1)\<close> and the
  total field is \<open>(-2, 0, 1)\<close>; for \<open>d = (1, 0, 2\<^sup>5\<^sup>5)\<close> the two projections are \<open>2\<^sup>5\<^sup>5\<close> and
  \<open>2\<^sup>5\<^sup>5 - 2\<close> rounded, which is \<open>2\<^sup>5\<^sup>5\<close> again, so the scalar overload returns 0, while
  the projection of \<^verbatim>\<open>secondaryField(p)\<close> \<open>= (2, -0, 0)\<close> on \<open>d\<close> is 2.
\<close>

theorem secondaryField_evaluation_order:
  "secondaryField_double E p = primaryField_double E p - totalField_double E p \<and>
   secondaryField_dir_double E p d =
     primaryField_dir_double E p d - totalField_dir_double E p d \<and>
   secondaryField_dir_double E p d =
     dot_double (primaryField_double E p) d - dot_double (totalField_double E p) d \<and>
   subscript_double (secondaryField_double E p) 0 =
     subscript_double (primaryField_double E p) 0 - subscript_double (totalField_double E p) 0 \<and>
   subscript_double (secondaryField_double E p) 1 =
     subscript_double (primaryField_double E p) 1 - subscript_double (totalField_double E p) 1 \<and>
   subscript_double (secondaryField_double E p) 2 =
     subscript_double (primaryField_double E p) 2 - subscript_double (totalField_double E p) 2 \<and>
   secondaryField_double
     (bind_double
        (AnalyticSolutionMEG_double (FieldVector_double (Finite 0) (Finite 0) (Finite 0))
           (Finite 1))
        \<lparr>position_double = FieldVector_double (Finite 1) (Finite 0) (Finite 1),
         moment_double = FieldVector_double (Finite 0) (Finite 1) (Finite 0)\<rparr>)
     (FieldVector_double (Finite 0) (Finite 0) (Finite 1)) =
     FieldVector_double (Finite 2) NegZero (Finite 0) \<and>
   secondaryField_dir_double
     (bind_double
        (AnalyticSolutionMEG_double (FieldVector_double (Finite 0) (Finite 0) (Finite 0))
           (Finite 1))
        \<lparr>position_double = FieldVector_double (Finite 1) (Finite 0) (Finite 1),
         moment_double = FieldVector_double (Finite 0) (Finite 1) (Finite 0)\<rparr>)
     (FieldVector_double (Finite 0) (Finite 0) (Finite 1))
     (FieldVector_double (Finite 1) (Finite 0) (Finite 36028797018963968)) = Finite 0 \<and>
   dot_double
     (secondaryField_double
        (bind_double
           (AnalyticSolutionMEG_double (FieldVector_double (Finite 0) (Finite 0) (Finite 0))
              (Finite 1))
           \<lparr>position_double = FieldVector_double (Finite 1) (Finite 0) (Finite 1),
            moment_double = FieldVector_double (Finite 0) (Finite 1) (Finite 0)\<rparr>)
        (FieldVector_double (Finite 0) (Finite 0) (Finite 1)))
     (FieldVector_double (Finite 1) (Finite 0) (Finite 36028797018963968)) = Finite 2"
proof -
  have components:
    "subscript_double (X - Y) 0 = subscript_double X 0 - subscript_double Y 0 \<and>
     subscript_double (X - Y) 1 = subscript_double X 1 - subscript_double Y 1 \<and>
     subscript_double (X - Y) 2 = subscript_double X 2 - subscript_double Y 2" for X Y
    by (cases X; cases Y) (simp del: minus_double)
  have general:
    "secondaryField_double E p = primaryField_double E p - totalField_double E p \<and>
     secondaryField_dir_double E p d =
       primaryField_dir_double E p d - totalField_dir_double E p d \<and>
     secondaryField_dir_double E p d =
       dot_double (primaryField_double E p) d - dot_double (totalField_double E p) d \<and>
     subscript_double (secondaryField_double E p) 0 =
       subscript_double (primaryField_double E p) 0
       - subscript_double (totalField_double E p) 0 \<and>
     subscript_double (secondaryField_double E p) 1 =
       subscript_double (primaryField_double E p) 1
       - subscript_double (totalField_double E p) 1 \<and>
     subscript_double (secondaryField_double E p) 2 =
       subscript_double (primaryField_double E p) 2
       - subscript_double (totalField_double E p) 2"
    using components
    by (simp only: secondaryField_double_def secondaryField_dir_double_def
        primaryField_dir_double_def totalField_dir_double_def simp_thms)
  have example:
    "secondaryField_double
     (bind_double
        (AnalyticSolutionMEG_double (FieldVector_double (Finite 0) (Finite 0) (Finite 0))
           (Finite 1))
        \<lparr>position_double = FieldVector_double (Finite 1) (Finite 0) (Finite 1),
         moment_double = FieldVector_double (Finite 0) (Finite 1) (Finite 0)\<rparr>)
     (FieldVector_double (Finite 0) (Finite 0) (Finite 1)) =
     FieldVector_double (Finite 2) NegZero (Finite 0) \<and>
   secondaryField_dir_double
     (bind_double
        (AnalyticSolutionMEG_double (FieldVector_double (Finite 0) (Finite 0) (Finite 0))
           (Finite 1))
        \<lparr>position_double = FieldVector_double (Finite 1) (Finite 0) (Finite 1),
         moment_double = FieldVector_double (Finite 0) (Finite 1) (Finite 0)\<rparr>)
     (FieldVector_double (Finite 0) (Finite 0) (Finite 1))
     (FieldVector_double (Finite 1) (Finite 0) (Finite 36028797018963968)) = Finite 0 \<and>
   dot_double
     (secondaryField_double
        (bind_double
           (AnalyticSolutionMEG_double (FieldVector_double (Finite 0) (Finite 0) (Finite 0))
              (Finite 1))
           \<lparr>position_double = FieldVector_double (Finite 1) (Finite 0) (Finite 1),
            moment_double = FieldVector_double (Finite 0) (Finite 1) (Finite 0)\<rparr>)
        (FieldVector_double (Finite 0) (Finite 0) (Finite 1)))
     (FieldVector_double (Finite 1) (Finite 0) (Finite 36028797018963968)) = Finite 2"
    by (simp only: secondaryField_dir_double_def secondaryField_double_def
          primaryField_dir_double_def totalField_dir_double_def
          primaryField_double_example totalField_double_example)
       (simp add: zero_of_sign_def round_2_55 round_2_55_m2)
  from general example show ?thesis by blast
qed

text \<open>
  C4. For every evaluator, every query point \<open>p\<close> and every direction \<open>d\<close>, of any length,
  the scalar overload \<^verbatim>\<open>totalField(p, d)\<close> is the dot product of \<^verbatim>\<open>totalField(p)\<close> with
  \<open>d\<close>, the sum of the three products of components, and likewise for
  \<^verbatim>\<open>primaryField\<close>.
\<close>

theorem field_dir_dot_product:
  "totalField_dir E p d = dot (totalField E p) d \<and>
   primaryField_dir E p d = dot (primaryField E p) d \<and>
   totalField_dir E p (FieldVector d0 d1 d2) =
     subscript (totalField E p) 0 * d0 + subscript (totalField E p) 1 * d1
       + subscript (totalField E p) 2 * d2 \<and>
   primaryField_dir E p (FieldVector d0 d1 d2) =
     subscript (primaryField E p) 0 * d0 + subscript (primaryField E p) 1 * d1
       + subscript (primaryField E p) 2 * d2"
proof -
  have "dot X (FieldVector d0 d1 d2) =
      subscript X 0 * d0 + subscript X 1 * d1 + subscript X 2 * d2" for X
    by (cases X) simp
  then show ?thesis
    by (simp add: totalField_dir_def primaryField_dir_def)
qed




text \<open>
  C6. \<^verbatim>\<open>bind\<close> sets \<open>R_0\<close> to the position of the dipole minus the sphere center and the
  moment to the moment of the dipole, has no failing outcome, and leaves the sphere center
  and the scaling factor as they are. It overwrites the bound state wholesale: binding
  \<open>D1\<close> and then \<open>D2\<close> gives the evaluator that binding \<open>D2\<close> alone gives, so every field
  query after it depends on \<open>D2\<close> only.
\<close>

theorem bind_overwrites_bound_state:
  "R_0 (bind E dipole) = position dipole - sphereCenter' E \<and>
   moment' (bind E dipole) = moment dipole \<and>
   sphereCenter' (bind E dipole) = sphereCenter' E \<and>
   scalingFactor' (bind E dipole) = scalingFactor' E \<and>
   bind (bind E D1) D2 = bind E D2 \<and>
   totalField (bind (bind E D1) D2) p = totalField (bind E D2) p \<and>
   primaryField (bind (bind E D1) D2) p = primaryField (bind E D2) p \<and>
   secondaryField (bind (bind E D1) D2) p = secondaryField (bind E D2) p \<and>
   totalField_dir (bind (bind E D1) D2) p d = totalField_dir (bind E D2) p d \<and>
   primaryField_dir (bind (bind E D1) D2) p d = primaryField_dir (bind E D2) p d \<and>
   secondaryField_dir (bind (bind E D1) D2) p d = secondaryField_dir (bind E D2) p d"
proof -
  have "bind (bind E D1) D2 = bind E D2"
    by (simp add: bind_def)
  then show ?thesis
    by (simp add: bind_def)
qed




text \<open>
  C8. When a denominator degenerates, the field methods return a vector without finite
  components; they have no error outcome, and zero is not put in the place of the
  quotient. For an evaluator with sphere center \<open>C\<close> and scaling factor \<open>s\<close>, bound to a
  dipole at position \<open>P\<close> with moment \<open>Q\<close>:
  \<^item> on \<^verbatim>\<open>double\<close>, if the computed \<open>F\<close> of \<^verbatim>\<open>totalField\<close> at \<open>p\<close> is zero, every component
    of the result is an infinity or a NaN, and \<^verbatim>\<open>primaryField\<close> at the position of the
    dipole returns three NaNs;
  \<^item> in exact arithmetic, if \<open>F = 0\<close> no component of \<^verbatim>\<open>totalField\<close> at \<open>p\<close> has a value, and
    no component of \<^verbatim>\<open>primaryField\<close> at the position of the dipole has one; such a
    vector is not the zero vector.
\<close>

theorem degenerate_denominators_propagate:
  "((let R = p - C; R0 = P - C; A = R - R0; r = two_norm_double R; a = two_norm_double A;
         F = a * (r * a + r * r - dot_double R0 R)
     in is_zero F) \<longrightarrow>
      all_nonfinite (totalField_double (bind_double (AnalyticSolutionMEG_double C s)
                                          \<lparr>position_double = P, moment_double = Q\<rparr>) p)) \<and>
   primaryField_double (bind_double (AnalyticSolutionMEG_double C s)
                          \<lparr>position_double = P, moment_double = Q\<rparr>) P =
     FieldVector_double NaN NaN NaN \<and>
   all_nonfinite (FieldVector_double NaN NaN NaN) \<and>
   \<not> all_nonfinite (FieldVector_double (Finite 0) (Finite 0) (Finite 0)) \<and>
   (spec_F (v_minus P' C') (v_minus p' C') = 0 \<longrightarrow>
      totalField (bind (AnalyticSolutionMEG (coordinate C') (Exact s'))
                       \<lparr>position = coordinate P', moment = coordinate Q'\<rparr>) (coordinate p') =
        FieldVector Undef Undef Undef) \<and>
   primaryField (bind (AnalyticSolutionMEG (coordinate C') (Exact s'))
                      \<lparr>position = coordinate P', moment = coordinate Q'\<rparr>) (coordinate P') =
     FieldVector Undef Undef Undef \<and>
   FieldVector Undef Undef Undef \<noteq> coordinate (0, 0, 0)"
proof -
  have total_double:
    "all_nonfinite (totalField_double (bind_double (AnalyticSolutionMEG_double C s)
                                          \<lparr>position_double = P, moment_double = Q\<rparr>) p)"
    if "let R = p - C; R0 = P - C; A = R - R0; r = two_norm_double R; a = two_norm_double A;
            F = a * (r * a + r * r - dot_double R0 R)
        in is_zero F"
    using that
    by (simp only: Let_def) (rule totalField_double_zero_denominator)
  have total: "totalField (bind (AnalyticSolutionMEG (coordinate C') (Exact s'))
                       \<lparr>position = coordinate P', moment = coordinate Q'\<rparr>) (coordinate p') =
        FieldVector Undef Undef Undef"
    if "spec_F (v_minus P' C') (v_minus p' C') = 0"
  proof -
    from that have "v_norm (v_minus (v_minus p' C') (v_minus P' C')) *
        (v_norm (v_minus p' C') * v_norm (v_minus (v_minus p' C') (v_minus P' C'))
          + v_norm (v_minus p' C') * v_norm (v_minus p' C')
          - v_dot (v_minus P' C') (v_minus p' C')) = 0"
      by (simp add: spec_F_def Let_def power2_eq_square)
    then show ?thesis
      by (simp add: bind_new totalField_def Let_def coordinate_minus
          two_norm_coordinate dot_coordinate divided_by_zero del: mult_eq_0_iff)
  qed
  have "v_norm (v_minus (v_minus P' C') (v_minus P' C')) = 0"
    by (simp add: v_norm_zero_iff v_minus_coincide)
  then have primary: "primaryField (bind (AnalyticSolutionMEG (coordinate C') (Exact s'))
                      \<lparr>position = coordinate P', moment = coordinate Q'\<rparr>) (coordinate P') =
     FieldVector Undef Undef Undef"
    by (simp add: bind_new primaryField_def Let_def coordinate_minus two_norm_coordinate
        divided_by_coordinate crossProduct_no_value)
  have rest: "all_nonfinite (FieldVector_double NaN NaN NaN) \<and>
    \<not> all_nonfinite (FieldVector_double (Finite 0) (Finite 0) (Finite 0)) \<and>
    FieldVector Undef Undef Undef \<noteq> coordinate (0, 0, 0)"
    by simp
  from total_double primaryField_double_on_dipole [of C s P Q] total primary rest
  show ?thesis by (intro conjI impI) simp_all
qed

text \<open>
  For the sphere center \<open>(0, 0, 0)\<close>, the dipole at \<open>(0, 0, 2)\<close> with moment \<open>(1, 0, 0)\<close> and
  the point \<open>(0, 0, 1)\<close>: \<open>r = 1\<close>, \<open>a = 1\<close> and \<open>R\<^sub>0 \<cdot> R = 2\<close>, so \<open>F = 0\<close>, on \<^verbatim>\<open>double\<close> as in
  exact arithmetic.
\<close>

theorem degenerate_denominators_propagate_witness:
  "(let R = FieldVector_double (Finite 0) (Finite 0) (Finite 1)
            - FieldVector_double (Finite 0) (Finite 0) (Finite 0);
        R0 = FieldVector_double (Finite 0) (Finite 0) (Finite 2)
             - FieldVector_double (Finite 0) (Finite 0) (Finite 0);
        A = R - R0; r = two_norm_double R; a = two_norm_double A;
        F = a * (r * a + r * r - dot_double R0 R)
    in is_zero F) \<and>
   all_nonfinite
     (totalField_double
        (bind_double
           (AnalyticSolutionMEG_double (FieldVector_double (Finite 0) (Finite 0) (Finite 0))
              (Finite 1))
           \<lparr>position_double = FieldVector_double (Finite 0) (Finite 0) (Finite 2),
            moment_double = FieldVector_double (Finite 1) (Finite 0) (Finite 0)\<rparr>)
        (FieldVector_double (Finite 0) (Finite 0) (Finite 1))) \<and>
   primaryField_double
     (bind_double
        (AnalyticSolutionMEG_double (FieldVector_double (Finite 0) (Finite 0) (Finite 0))
           (Finite 1))
        \<lparr>position_double = FieldVector_double (Finite 0) (Finite 0) (Finite 2),
         moment_double = FieldVector_double (Finite 1) (Finite 0) (Finite 0)\<rparr>)
     (FieldVector_double (Finite 0) (Finite 0) (Finite 2)) = FieldVector_double NaN NaN NaN \<and>
   spec_F (v_minus (0, 0, 2) (0, 0, 0)) (v_minus (0, 0, 1) (0, 0, 0)) = 0 \<and>
   totalField (bind (AnalyticSolutionMEG (coordinate (0, 0, 0)) (Exact 1))
                       \<lparr>position = coordinate (0, 0, 2), moment = coordinate (1, 0, 0)\<rparr>)
      (coordinate (0, 0, 1)) = FieldVector Undef Undef Undef \<and>
   primaryField (bind (AnalyticSolutionMEG (coordinate (0, 0, 0)) (Exact 1))
                       \<lparr>position = coordinate (0, 0, 2), moment = coordinate (1, 0, 0)\<rparr>)
      (coordinate (0, 0, 2)) = FieldVector Undef Undef Undef"
proof -
  have d: "let R = FieldVector_double (Finite 0) (Finite 0) (Finite 1)
            - FieldVector_double (Finite 0) (Finite 0) (Finite 0);
        R0 = FieldVector_double (Finite 0) (Finite 0) (Finite 2)
             - FieldVector_double (Finite 0) (Finite 0) (Finite 0);
        A = R - R0; r = two_norm_double R; a = two_norm_double A;
        F = a * (r * a + r * r - dot_double R0 R)
    in is_zero F"
    by (simp add: Let_def zero_of_sign_def)
  have h: "spec_F (v_minus (0, 0, 2) (0, 0, 0)) (v_minus (0, 0, 1) (0, 0, 0)) = 0"
    by (simp add: spec_F_def)
  from d h
    degenerate_denominators_propagate
      [of "FieldVector_double (Finite 0) (Finite 0) (Finite 1)"
          "FieldVector_double (Finite 0) (Finite 0) (Finite 0)"
          "FieldVector_double (Finite 0) (Finite 0) (Finite 2)"
          "Finite 1"
          "FieldVector_double (Finite 1) (Finite 0) (Finite 0)"
          "(0, 0, 2)" "(0, 0, 0)" "(0, 0, 1)" 1 "(1, 0, 0)"]
  show ?thesis by blast
qed

text \<open>
  C9 does not hold of the code. \<^verbatim>\<open>__getitem__\<close> and \<^verbatim>\<open>__setitem__\<close> hand the index to
  the subscript operator of the vector without comparing it with the size: for the
  Coordinate \<open>(1, 2, 3)\<close>, reading at the index 3 and writing 7 at the index 3 leave the
  storage of the vector and raise nothing, where the claim asks for an IndexError. For
  no Coordinate, index and value does either of them raise; at the index 2 the read
  returns the third component.
\<close>

theorem getitem_setitem_unchecked:
  "getitem (FieldVector_double (Finite 1) (Finite 2) (Finite 3)) 3 = Out_of_bounds \<and>
   setitem (FieldVector_double (Finite 1) (Finite 2) (Finite 3)) 3 (Finite 7) = Out_of_bounds \<and>
   getitem (FieldVector_double (Finite 1) (Finite 2) (Finite 3)) 2 = Returns (Finite 3) \<and>
   (\<forall>e. getitem c index \<noteq> Raises e) \<and> (\<forall>e. setitem c index v \<noteq> Raises e)"
  by (simp add: getitem_def setitem_def dim_def)

end
